theory Spec2Isabelle
  imports Main
begin

section \<open>Python strings\<close>

text \<open>
  A Python \<open>str\<close> is modelled as a \<open>string\<close> holding its UTF-8 bytes. The case
  mappings below change the ASCII letters only and leave every other byte alone, which is
  what \<open>str.lower\<close> and \<open>str.upper\<close> do on the ASCII range and on the accented
  lower-case letters of the program's own messages.
\<close>

definition lower_char :: "char \<Rightarrow> char" where
  "lower_char c =
     (let n = (of_char c :: nat) in if 65 \<le> n \<and> n \<le> 90 then char_of (n + 32) else c)"

definition upper_char :: "char \<Rightarrow> char" where
  "upper_char c =
     (let n = (of_char c :: nat) in if 97 \<le> n \<and> n \<le> 122 then char_of (n - 32) else c)"

definition lower :: "string \<Rightarrow> string" where
  "lower s = map lower_char s"

definition upper :: "string \<Rightarrow> string" where
  "upper s = map upper_char s"

text \<open>
  The white space \<open>str.strip\<close> removes, on the ASCII range: the code points 9 to 13 and
  28 to 32. The bytes of any other code point are left alone.
\<close>

definition is_space :: "char \<Rightarrow> bool" where
  "is_space c = (let n = (of_char c :: nat) in (9 \<le> n \<and> n \<le> 13) \<or> (28 \<le> n \<and> n \<le> 32))"

definition lstrip :: "string \<Rightarrow> string" where
  "lstrip s = dropWhile is_space s"

definition rstrip :: "string \<Rightarrow> string" where
  "rstrip s = rev (dropWhile is_space (rev s))"

definition strip :: "string \<Rightarrow> string" where
  "strip s = rstrip (lstrip s)"

text \<open>\<open>s.startswith(p)\<close> and the substring test \<open>needle in hay\<close>.\<close>

fun startswith :: "string \<Rightarrow> string \<Rightarrow> bool" where
  "startswith s [] = True"
| "startswith [] (p # ps) = False"
| "startswith (c # cs) (p # ps) = (c = p \<and> startswith cs ps)"

fun str_in :: "string \<Rightarrow> string \<Rightarrow> bool" where
  "str_in needle [] = (needle = [])"
| "str_in needle (c # cs) = (startswith (c # cs) needle \<or> str_in needle cs)"

text \<open>\<open>s.replace(' ', '')\<close>.\<close>

definition remove_spaces :: "string \<Rightarrow> string" where
  "remove_spaces s = filter (\<lambda>c. c \<noteq> CHR '' '') s"

text \<open>\<open>str(n)\<close> for an integer: its decimal digits, with a minus sign below zero.\<close>

definition digit_char :: "nat \<Rightarrow> char" where
  "digit_char d = char_of (48 + d)"

fun str_nat :: "nat \<Rightarrow> string" where
  "str_nat n = (if n < 10 then [digit_char n] else str_nat (n div 10) @ [digit_char (n mod 10)])"

declare str_nat.simps [simp del]

definition str_int :: "int \<Rightarrow> string" where
  "str_int i = (if i < 0 then CHR ''-'' # str_nat (nat (- i)) else str_nat (nat i))"

section \<open>Team name normalisation (services/team\_normalization\_service.py)\<close>

text \<open>
  The alias tables are imported from a module \<open>teams\<close> that is not part of the sources;
  they are a parameter of the model, one dictionary per table the service imports.
\<close>

record team_tables =
  nfl_teams :: "string \<rightharpoonup> string"
  nba_teams :: "string \<rightharpoonup> string"
  cfl_teams_dict :: "string \<rightharpoonup> string"
  ncaa_football_teams :: "string \<rightharpoonup> string"
  ncaa_basketball_teams :: "string \<rightharpoonup> string"
  mlb_teams :: "string \<rightharpoonup> string"
  wnba_teams :: "string \<rightharpoonup> string"
  nhl_teams :: "string \<rightharpoonup> string"

text \<open>
  The normaliser looks a name up under \<open>name.lower().strip()\<close>. Python's two methods
  know all of Unicode: \<open>lower\<close> maps every cased letter, accented capitals included, and
  \<open>strip\<close> removes every white-space code point, the no-break space included. The
  normaliser therefore takes the two methods as a parameter, and what is proved of it for
  every such pair holds for the pair Python has. \<open>ascii_ops\<close> is the pair above, which
  agrees with Python's on ASCII text.
\<close>

record str_ops =
  str_lower :: "string \<Rightarrow> string"
  str_strip :: "string \<Rightarrow> string"

definition ascii_ops :: str_ops where
  "ascii_ops = \<lparr>str_lower = lower, str_strip = strip\<rparr>"

definition get_team_dictionary ::
  "str_ops \<Rightarrow> team_tables \<Rightarrow> string \<Rightarrow> (string \<rightharpoonup> string)" where
  "get_team_dictionary S T sport0 =
     (let sport = str_strip S (str_lower S sport0)
      in if sport = ''nfl'' then nfl_teams T
         else if sport = ''nba'' then nba_teams T
         else if sport = ''cfl'' then cfl_teams_dict T
         else if sport = ''ncaaf'' then ncaa_football_teams T
         else if sport = ''ncaab'' \<or> sport = ''ncaam'' then ncaa_basketball_teams T
         else if sport = ''mlb'' then mlb_teams T
         else if sport = ''wnba'' then wnba_teams T
         else if sport = ''nhl'' then nhl_teams T
         else Map.empty)"

definition get_normalized_team ::
  "str_ops \<Rightarrow> team_tables \<Rightarrow> string \<Rightarrow> string \<Rightarrow> string" where
  "get_normalized_team S T team_name league =
     (if team_name = [] then []
      else case get_team_dictionary S T league (str_strip S (str_lower S team_name)) of
             Some canonical \<Rightarrow> canonical
           | None \<Rightarrow> team_name)"

section \<open>Provider payloads and the outside world\<close>

text \<open>The accented letters of the program's messages, as UTF-8 bytes.\<close>

definition a_acute :: string where "a_acute = [CHR 0xC3, CHR 0xA1]"
definition e_acute :: string where "e_acute = [CHR 0xC3, CHR 0xA9]"
definition i_acute :: string where "i_acute = [CHR 0xC3, CHR 0xAD]"
definition o_acute :: string where "o_acute = [CHR 0xC3, CHR 0xB3]"

text \<open>The settled endpoint: \<open>{last, leagues: [{events: [{id, periods: [...]}]}]}\<close>.\<close>

record period =
  number :: int
  team1Score :: int
  team2Score :: int
  settledAt :: string

record settled_event =
  se_id :: int
  se_periods :: "period list"

record settled_data =
  sd_last :: "int option"
  sd_leagues :: "settled_event list list"

text \<open>The fixtures endpoint: \<open>{league: [{name, id, events: [{id, home, away, rotNum}]}]}\<close>.\<close>

record fixture_event =
  fe_id :: int
  fe_home :: string
  fe_away :: string
  fe_rotNum :: int

record fixture_league =
  lg_name :: string
  lg_id :: int
  lg_events :: "fixture_event list"

text \<open>
  What a request can come back with. For the settled endpoint every failure the code
  catches is a \<open>RequestException\<close> (no connection, a time-out, the error that
  \<open>raise_for_status\<close> raises), carrying its message. The fixtures code looks at the
  status code and the body itself.
\<close>

datatype settled_reply = SettledFailed string | SettledBody settled_data

datatype fixtures_body = BlankBody | InvalidJson string | JsonBody "fixture_league list"

datatype fixtures_reply = FixturesFailed string | FixturesResponse nat fixtures_body

text \<open>
  The environment of one call: the two JSON files the id look-ups read (\<open>None\<close> when
  \<open>load_json_file\<close> returns \<open>None\<close>), and the provider's reply to a request, given the
  number of requests issued before it.
\<close>

record env =
  sports_file :: "(string \<times> int) list option"
  league_files :: "string \<Rightarrow> (string \<times> int) list option"
  fixtures_reply_at :: "nat \<Rightarrow> fixtures_reply"
  settled_reply_at :: "nat \<Rightarrow> settled_reply"

text \<open>The result dictionary of a resolution, with the keys the code reads or writes.\<close>

record game_result =
  gr_error :: "string option"
  gr_id :: "int option"
  gr_periods :: "period list option"
  gr_actual_home :: "string option"
  gr_actual_away :: "string option"
  gr_data :: "settled_data option"

record bet_info =
  bet_id :: int
  sport :: string
  league :: string
  original_league :: string
  visitor :: string
  home :: string
  bet_type :: string
  the_bet :: string
  line :: string
  bet_period :: string

record bet_summary =
  bs_id :: int
  bs_sport :: string
  bs_league :: string
  bs_bet_type :: string
  bs_the_bet :: string
  bs_line :: string
  bs_period :: string
  bs_visitor :: string
  bs_home :: string

record notification =
  n_result :: game_result
  n_bet_info :: "bet_summary option"

text \<open>
  The mutable state the orchestrator threads through a cycle: the two caches, the guard
  of processed bets, the payloads handed to \<open>send_telegram_message\<close> and the URLs
  requested from the provider, both in order. The two caches are written to their JSON
  files whenever the code changes them; the files hold the same mappings and are not
  modelled apart. The credentials go into the requests only, and \<open>sports_mapping\<close> is
  handed on without being read; both are left out.
\<close>

record world =
  game_ids_cache :: "string \<rightharpoonup> int"
  last_values_cache :: "string \<rightharpoonup> int"
  processed_bets :: "string set"
  telegram_sent :: "notification list"
  http_requests :: "string list"

section \<open>The provider service (services/ps3838\_service.py)\<close>

definition API_BASE_URL :: string where
  "API_BASE_URL = ''https://api.ps3838.com/v3''"

definition FIXTURES_API_PATH :: string where
  "FIXTURES_API_PATH = API_BASE_URL @ ''/fixtures''"

definition SETTLED_API_PATH :: string where
  "SETTLED_API_PATH = API_BASE_URL @ ''/fixtures/settled''"

fun join_amp :: "string list \<Rightarrow> string" where
  "join_amp [] = []"
| "join_amp [x] = x"
| "join_amp (x # y # ys) = x @ ''&'' @ join_amp (y # ys)"

definition build_api_url :: "string \<Rightarrow> (string \<times> string option) list \<Rightarrow> string" where
  "build_api_url base_path params =
     base_path @ ''?'' @
     join_amp (concat (map (\<lambda>(k, v). case v of None \<Rightarrow> [] | Some x \<Rightarrow> [k @ ''='' @ x]) params))"

datatype settled_result = SR_Error string | SR_Event settled_event | SR_Data settled_data

text \<open>
  \<open>search_in_settled\<close>: the request always asks \<open>since=0\<close>; a reply with a \<open>last\<close>
  field overwrites the cursor stored under \<open>str(sport_id)\<close>; a falsy \<open>game_id\<close> returns
  the whole payload; otherwise the first event with that id is returned, as it is.
\<close>

definition search_in_settled ::
  "env \<Rightarrow> int \<Rightarrow> string \<Rightarrow> int \<Rightarrow> world \<Rightarrow> settled_result \<times> world" where
  "search_in_settled E sport_id league_ids game_id w =
     (let sport_key = str_int sport_id;
          url = build_api_url SETTLED_API_PATH
                  [(''sportId'', Some (str_int sport_id)), (''leagueIds'', Some league_ids),
                   (''since'', Some ''0'')];
          w1 = w\<lparr>http_requests := http_requests w @ [url]\<rparr>
      in case settled_reply_at E (length (http_requests w)) of
           SettledFailed e \<Rightarrow> (SR_Error (''Error de conexi'' @ o_acute @ ''n: '' @ e), w1)
         | SettledBody data \<Rightarrow>
             (let w2 = (case sd_last data of
                          Some v \<Rightarrow> w1\<lparr>last_values_cache := (last_values_cache w1)(sport_key \<mapsto> v)\<rparr>
                        | None \<Rightarrow> w1)
              in if game_id = 0 then (SR_Data data, w2)
                 else case find (\<lambda>ev. se_id ev = game_id) (concat (sd_leagues data)) of
                        Some ev \<Rightarrow> (SR_Event ev, w2)
                      | None \<Rightarrow>
                          (SR_Error (''Partido con ID '' @ str_int game_id @
                                     '' no encontrado en settled.''), w2)))"

datatype fixtures_result = FX_Error string | FX_Data "fixture_league list"

text \<open>
  \<open>get_fixtures\<close>. A body that is not JSON makes \<open>response.json()\<close> raise the
  library's \<open>JSONDecodeError\<close>, which is a \<open>RequestException\<close> (requests 2.27 and
  later), so the first handler answers it with the message of a failed connection.
\<close>

definition get_fixtures ::
  "env \<Rightarrow> int \<Rightarrow> string \<Rightarrow> world \<Rightarrow> fixtures_result \<times> world" where
  "get_fixtures E sport_id league_ids w =
     (if sport_id = 0 \<or> sport_id \<le> 0 then (FX_Error (''sport_id inv'' @ a_acute @ ''lido''), w)
      else if league_ids = [] then
        (FX_Error (''league_ids est'' @ a_acute @ '' vac'' @ i_acute @ ''o''), w)
      else
        (let url = build_api_url FIXTURES_API_PATH
                     [(''sportId'', Some (str_int sport_id)), (''leagueIds'', Some league_ids),
                      (''isLive'', Some ''1''), (''since'', Some ''0'')];
             w1 = w\<lparr>http_requests := http_requests w @ [url]\<rparr>
         in case fixtures_reply_at E (length (http_requests w)) of
              FixturesFailed e \<Rightarrow> (FX_Error (''Error de conexi'' @ o_acute @ ''n: '' @ e), w1)
            | FixturesResponse code body \<Rightarrow>
                if code \<noteq> 200 then (FX_Error (''Error HTTP '' @ str_nat code), w1)
                else (case body of
                        BlankBody \<Rightarrow> (FX_Error (''Respuesta vac'' @ i_acute @ ''a del servidor''), w1)
                      | InvalidJson e \<Rightarrow>
                          (FX_Error (''Error de conexi'' @ o_acute @ ''n: '' @ e), w1)
                      | JsonBody leagues \<Rightarrow> (FX_Data leagues, w1))))"

text \<open>
  \<open>get_settled_fixtures\<close> issues one more request to the settled path; its result is
  only ever written into a dictionary that is then dropped, so the request is all that
  remains of it.
\<close>

definition get_settled_fixtures :: "int \<Rightarrow> string \<Rightarrow> world \<Rightarrow> world" where
  "get_settled_fixtures sport_id league_ids w =
     w\<lparr>http_requests := http_requests w @
         [build_api_url SETTLED_API_PATH
            [(''sportId'', Some (str_int sport_id)), (''leagueIds'', Some league_ids),
             (''since'', Some ''0'')]]\<rparr>"

section \<open>The bet service (services/bet\_service.py)\<close>

definition get_sport_id :: "env \<Rightarrow> string \<Rightarrow> int" where
  "get_sport_id E sport_name =
     (case sports_file E of
        None \<Rightarrow> 0
      | Some sports \<Rightarrow>
          (case find (\<lambda>entry. fst entry = sport_name) sports of
             Some entry \<Rightarrow> snd entry
           | None \<Rightarrow> 0))"

definition get_league_ids :: "env \<Rightarrow> string \<Rightarrow> string \<Rightarrow> string" where
  "get_league_ids E sport_name league_name =
     (case league_files E (''data/'' @ lower sport_name @ ''.json'') of
        None \<Rightarrow> []
      | Some leagues \<Rightarrow>
          (case find (\<lambda>entry. fst entry = league_name) leagues of
             Some entry \<Rightarrow> str_int (snd entry)
           | None \<Rightarrow> []))"

text \<open>
  \<open>extract_team_names_from_bet\<close>: the leading run of lower-case letters of the bet's
  text (the regular expression \<open>^([a-z]+)\<close>), normalised. The extracted name is ASCII
  by construction; the bet service is modelled on ASCII text throughout.
\<close>

definition is_lower_letter :: "char \<Rightarrow> bool" where
  "is_lower_letter c = (let n = (of_char c :: nat) in 97 \<le> n \<and> n \<le> 122)"

definition extract_team_names_from_bet :: "team_tables \<Rightarrow> string \<Rightarrow> string \<Rightarrow> string list" where
  "extract_team_names_from_bet T the_bet0 league_name =
     (let bet_text = strip (lower the_bet0)
      in if bet_text = [] then []
         else (let extracted = takeWhile is_lower_letter bet_text
               in if extracted = [] then []
                  else (let normalized = get_normalized_team ascii_ops T extracted league_name
                        in if normalized \<noteq> [] then [normalized] else [extracted])))"

text \<open>The key a cache look-up builds from two team names: \<open>f"{t1}_{t2}".replace(' ', '')\<close>.\<close>

definition cache_key :: "string \<Rightarrow> string \<Rightarrow> string" where
  "cache_key t1 t2 = remove_spaces (t1 @ ''_'' @ t2)"

definition bet_cache_key :: "bet_info \<Rightarrow> string" where
  "bet_cache_key bet = ''bet_'' @ str_int (bet_id bet)"

definition lookup_list :: "(string \<rightharpoonup> int) \<Rightarrow> string \<Rightarrow> int list" where
  "lookup_list cache k = (case cache k of Some g \<Rightarrow> [g] | None \<Rightarrow> [])"

text \<open>
  The ids already cached for the bet, without duplicates. The code builds
  \<open>list(set(...))\<close>, whose order Python does not fix; the model keeps each id at its
  last occurrence, and nothing below rests on the order.
\<close>

definition cached_game_ids :: "(string \<rightharpoonup> int) \<Rightarrow> string \<Rightarrow> string list \<Rightarrow> int list" where
  "cached_game_ids cache bet_id_key team_names =
     remdups
       (lookup_list cache bet_id_key @
        concat (map (\<lambda>t1. concat (map (\<lambda>t2. if t1 \<noteq> t2 then lookup_list cache (cache_key t1 t2)
                                               else []) team_names)) team_names))"

definition error_result :: "string \<Rightarrow> game_result" where
  "error_result e =
     \<lparr>gr_error = Some e, gr_id = None, gr_periods = None, gr_actual_home = None,
      gr_actual_away = None, gr_data = None\<rparr>"

text \<open>The dictionary \<open>search_in_settled\<close> returned, as a result dictionary.\<close>

definition of_settled_result :: "settled_result \<Rightarrow> game_result" where
  "of_settled_result sr =
     (case sr of
        SR_Error e \<Rightarrow> error_result e
      | SR_Event ev \<Rightarrow>
          \<lparr>gr_error = None, gr_id = Some (se_id ev), gr_periods = Some (se_periods ev),
           gr_actual_home = None, gr_actual_away = None, gr_data = None\<rparr>
      | SR_Data d \<Rightarrow>
          \<lparr>gr_error = None, gr_id = None, gr_periods = None, gr_actual_home = None,
           gr_actual_away = None, gr_data = Some d\<rparr>)"

text \<open>The dictionary \<open>{"id": ..., "periods": ...}\<close> built from a cached id's settled result.\<close>

definition enriched_of :: "settled_result \<Rightarrow> game_result" where
  "enriched_of sr =
     (case sr of
        SR_Event ev \<Rightarrow>
          \<lparr>gr_error = None, gr_id = Some (se_id ev), gr_periods = Some (se_periods ev),
           gr_actual_home = None, gr_actual_away = None, gr_data = None\<rparr>
      | _ \<Rightarrow>
          \<lparr>gr_error = None, gr_id = None, gr_periods = Some [], gr_actual_home = None,
           gr_actual_away = None, gr_data = None\<rparr>)"

definition enrich_result_with_team_names ::
  "game_result \<Rightarrow> int \<Rightarrow> fixture_league list \<Rightarrow> game_result" where
  "enrich_result_with_team_names result game_id fixtures_data =
     (case find (\<lambda>ev. fe_id ev = game_id) (concat (map lg_events fixtures_data)) of
        Some ev \<Rightarrow> result\<lparr>gr_actual_home := Some (fe_home ev), gr_actual_away := Some (fe_away ev)\<rparr>
      | None \<Rightarrow> result)"

text \<open>
  The first loop of \<open>get_game_data\<close>: each cached id is looked up in settled; the first
  result without an \<open>error\<close> key is returned, and after an error one more request goes to
  the settled fixtures.
\<close>

fun settle_cached ::
  "env \<Rightarrow> int \<Rightarrow> string \<Rightarrow> fixture_league list \<Rightarrow> int list \<Rightarrow> world \<Rightarrow> game_result option \<times> world"
where
  "settle_cached E sport_id league_ids fixtures_data [] w = (None, w)"
| "settle_cached E sport_id league_ids fixtures_data (gid # gids) w =
     (case search_in_settled E sport_id league_ids gid w of
        (SR_Error e, w1) \<Rightarrow>
          settle_cached E sport_id league_ids fixtures_data gids
            (get_settled_fixtures sport_id league_ids w1)
      | (sr, w1) \<Rightarrow> (Some (enrich_result_with_team_names (enriched_of sr) gid fixtures_data), w1))"

text \<open>
  The second loop: the first fixture, over all leagues of the reply, one of whose team
  names contains a searched name or is contained in one.
\<close>

definition team_match :: "string list \<Rightarrow> fixture_event \<Rightarrow> bool" where
  "team_match team_names ev =
     (let api_home = lower (fe_home ev); api_away = lower (fe_away ev)
      in list_ex (\<lambda>t. str_in t api_home \<or> str_in api_home t) team_names \<or>
         list_ex (\<lambda>t. str_in t api_away \<or> str_in api_away t) team_names)"

definition store_game_id ::
  "(string \<rightharpoonup> int) \<Rightarrow> string \<Rightarrow> string \<Rightarrow> string \<Rightarrow> int \<Rightarrow> (string \<rightharpoonup> int)" where
  "store_game_id cache api_home api_away bet_id_key gid =
     (let c1 = cache(remove_spaces api_away @ ''_'' @ remove_spaces api_home \<mapsto> gid);
          c2 = c1(remove_spaces api_home @ ''_'' @ remove_spaces api_away \<mapsto> gid)
      in if bet_id_key \<noteq> [] then c2(bet_id_key \<mapsto> gid) else c2)"

definition search_fixtures ::
  "env \<Rightarrow> int \<Rightarrow> string \<Rightarrow> fixture_league list \<Rightarrow> string list \<Rightarrow> string \<Rightarrow> world
     \<Rightarrow> game_result \<times> world" where
  "search_fixtures E sport_id league_ids fixtures_data team_names bet_id_key w =
     (case find (team_match team_names) (concat (map lg_events fixtures_data)) of
        None \<Rightarrow>
          (error_result (''Partido no encontrado en fixtures ni en la cach'' @ e_acute @ ''.''), w)
      | Some ev \<Rightarrow>
          (let gid = fe_id ev;
               w1 = w\<lparr>game_ids_cache :=
                        store_game_id (game_ids_cache w) (lower (fe_home ev)) (lower (fe_away ev))
                          bet_id_key gid\<rparr>
           in case search_in_settled E sport_id league_ids gid w1 of
                (sr, w2) \<Rightarrow>
                  ((of_settled_result sr)\<lparr>gr_actual_home := Some (fe_home ev),
                                          gr_actual_away := Some (fe_away ev)\<rparr>, w2)))"

text \<open>
  \<open>get_game_data\<close>. The names to search for are the bet's visitor and home, those that
  are not empty, or else what can be extracted from the bet's text; the league ids fall
  back on \<open>"493"\<close>.
\<close>

definition candidate_team_names :: "team_tables \<Rightarrow> bet_info \<Rightarrow> string list" where
  "candidate_team_names T bet =
     (let given = filter (\<lambda>t. t \<noteq> []) [visitor bet, home bet]
      in if given = [] then extract_team_names_from_bet T (the_bet bet) (league bet)
         else given)"

definition league_ids_param :: "env \<Rightarrow> bet_info \<Rightarrow> string" where
  "league_ids_param E bet =
     (let found_ids = get_league_ids E (sport bet) (league bet)
      in if found_ids = [] then ''493'' else found_ids)"

definition fixtures_or_none :: "fixtures_result \<Rightarrow> fixture_league list" where
  "fixtures_or_none fx = (case fx of FX_Error e \<Rightarrow> [] | FX_Data leagues \<Rightarrow> leagues)"

definition get_game_data :: "team_tables \<Rightarrow> env \<Rightarrow> bet_info \<Rightarrow> world \<Rightarrow> game_result \<times> world" where
  "get_game_data T E bet w =
     (let team_names = candidate_team_names T bet
      in if team_names = [] then (error_result ''No hay equipos para buscar el partido.'', w)
         else
           (let sport_id = get_sport_id E (sport bet);
                league_ids = league_ids_param E bet;
                bet_id_key = bet_cache_key bet;
                unique_game_ids = cached_game_ids (game_ids_cache w) bet_id_key team_names
            in case get_fixtures E sport_id league_ids w of
                 (fx, w1) \<Rightarrow>
                   (case settle_cached E sport_id league_ids (fixtures_or_none fx)
                           unique_game_ids w1 of
                      (Some enriched, w2) \<Rightarrow> (enriched, w2)
                    | (None, w2) \<Rightarrow>
                        search_fixtures E sport_id league_ids (fixtures_or_none fx) team_names
                          bet_id_key w2)))"

definition add_bet_info_to_result :: "game_result \<Rightarrow> bet_info \<Rightarrow> notification" where
  "add_bet_info_to_result result bet =
     \<lparr>n_result = result,
      n_bet_info = Some
        \<lparr>bs_id = bet_id bet, bs_sport = sport bet, bs_league = original_league bet,
         bs_bet_type = bet_type bet, bs_the_bet = the_bet bet, bs_line = line bet,
         bs_period = bet_period bet,
         bs_visitor = (case gr_actual_away result of Some a \<Rightarrow> a | None \<Rightarrow> visitor bet),
         bs_home = (case gr_actual_home result of Some h \<Rightarrow> h | None \<Rightarrow> home bet)\<rparr>\<rparr>"

text \<open>\<open>send_telegram_message\<close>: the payload is handed to the sink; its answer is not used.\<close>

definition send_telegram_message :: "notification \<Rightarrow> world \<Rightarrow> world" where
  "send_telegram_message payload w = w\<lparr>telegram_sent := telegram_sent w @ [payload]\<rparr>"

definition processed_key :: "bet_info \<Rightarrow> string" where
  "processed_key bet = str_int (bet_id bet) @ ''_'' @ visitor bet @ ''_'' @ home bet"

definition process_bet :: "team_tables \<Rightarrow> env \<Rightarrow> bet_info \<Rightarrow> world \<Rightarrow> world" where
  "process_bet T E bet w =
     (let bet_id_key = processed_key bet
      in if bet_id_key \<in> processed_bets w then w
         else case get_game_data T E bet w of
                (result, w1) \<Rightarrow>
                  (case gr_error result of
                     Some e \<Rightarrow>
                       if str_in ''not found in settled yet'' (lower e) then w1
                       else send_telegram_message \<lparr>n_result = result, n_bet_info = None\<rparr> w1
                   | None \<Rightarrow>
                       (let w2 = send_telegram_message (add_bet_info_to_result result bet) w1
                        in w2\<lparr>processed_bets := insert bet_id_key (processed_bets w2)\<rparr>)))"

text \<open>
  The calls of \<open>process_bet\<close> that the loops of \<open>main\<close> make one after the other,
  within a cycle and over the cycles, each bet with the environment it meets.
\<close>

fun process_bets :: "team_tables \<Rightarrow> (env \<times> bet_info) list \<Rightarrow> world \<Rightarrow> world" where
  "process_bets T [] w = w"
| "process_bets T (call # calls) w = process_bets T calls (process_bet T (fst call) (snd call) w)"

section \<open>The main loop (main.py, config.py)\<close>

definition MAIN_LOOP_SLEEP :: nat where
  "MAIN_LOOP_SLEEP = 60"

definition MAX_CONSECUTIVE_ERRORS :: nat where
  "MAX_CONSECUTIVE_ERRORS = 5"

text \<open>
  How the body of one cycle ends: it runs to its end, it raises an \<open>Exception\<close>, or the
  user interrupts it. What the loop itself then does is recorded as a trace of actions;
  \<open>SendErrorNotification\<close> stands for a call of the telegram service's function of that
  name.
\<close>

datatype cycle_outcome = Completed | Raised | Interrupted

datatype action =
    SaveCaches
  | LogError nat
  | LogCritical
  | Sleep nat
  | SendErrorNotification string
  | SysExit int

datatype status = Running | Exited int

record main_state =
  consecutive_errors :: nat
  status :: status
  actions :: "action list"

definition initial_main_state :: main_state where
  "initial_main_state = \<lparr>consecutive_errors = 0, status = Running, actions = []\<rparr>"

definition main_cycle :: "cycle_outcome \<Rightarrow> main_state \<Rightarrow> main_state" where
  "main_cycle oc s =
     (case oc of
        Completed \<Rightarrow>
          s\<lparr>consecutive_errors := 0,
            actions := actions s @ [SaveCaches, Sleep MAIN_LOOP_SLEEP]\<rparr>
      | Interrupted \<Rightarrow>
          s\<lparr>status := Exited 0, actions := actions s @ [SaveCaches, SysExit 0]\<rparr>
      | Raised \<Rightarrow>
          (let n = consecutive_errors s + 1
           in if n \<ge> MAX_CONSECUTIVE_ERRORS then
                s\<lparr>consecutive_errors := n, status := Exited 1,
                  actions := actions s @ [LogError n, LogCritical, SaveCaches, Sleep 5, SysExit 1]\<rparr>
              else
                s\<lparr>consecutive_errors := n,
                  actions := actions s @ [LogError n, Sleep MAIN_LOOP_SLEEP]\<rparr>))"

text \<open>
  \<open>while True\<close>, run on the outcomes of the cycles one after the other: the loop goes on
  as long as the process has not exited.
\<close>

fun run_main_loop :: "cycle_outcome list \<Rightarrow> main_state \<Rightarrow> main_state" where
  "run_main_loop [] s = s"
| "run_main_loop (oc # ocs) s =
     (if status s = Running then run_main_loop ocs (main_cycle oc s) else s)"

section \<open>The earlier revision (data/old\_code/ps3838.py)\<close>

text \<open>
  The repository keeps the earlier, single-file revision of the tracker. Three parts of
  it are modelled here, next to the code that replaced them: its league test, the way it
  recorded a discovered game id, and its main loop.
\<close>

definition NCAA_LEAGUES :: "string list" where
  "NCAA_LEAGUES = [''NCAAB'', ''NCAA BASKETBALL'', ''NCAA'', ''NCAA FOOTBALL'', ''NCAAF'']"

definition is_matching_league :: "fixture_league \<Rightarrow> string \<Rightarrow> bool" where
  "is_matching_league league_info search_league =
     (let api_league_name = upper (lg_name league_info);
          ncaa_case = (upper search_league \<in> set NCAA_LEAGUES)
      in if ncaa_case then
           (if str_in ''WNCAA'' api_league_name \<or> str_in ''WOMEN'' api_league_name then False
            else if str_in ''NCAA'' api_league_name then True
            else if str_in ''COLLEGE'' api_league_name \<and> str_in ''BASKETBALL'' api_league_name
              then True
            else False)
         else (upper search_league = api_league_name \<or> search_league = lg_name league_info))"

definition team_pair_keys :: "string list \<Rightarrow> string list" where
  "team_pair_keys team_names =
     concat (map (\<lambda>team1. concat (map (\<lambda>team2. if team1 \<noteq> team2
                                                then [remove_spaces (lower (team1 @ ''_'' @ team2))]
                                                else []) team_names)) team_names)"

definition save_game_id_mappings ::
  "(string \<rightharpoonup> int) \<Rightarrow> int \<Rightarrow> string \<Rightarrow> string \<Rightarrow> string list \<Rightarrow> int \<Rightarrow> (string \<rightharpoonup> int)" where
  "save_game_id_mappings last_game_ids game_id api_home api_away team_names the_bet_id =
     (let api_home_lower = remove_spaces api_home;
          api_away_lower = remove_spaces api_away;
          c1 = last_game_ids(lower (api_away_lower @ ''_'' @ api_home_lower) \<mapsto> game_id);
          c2 = c1(lower (api_home_lower @ ''_'' @ api_away_lower) \<mapsto> game_id);
          c3 = (if the_bet_id \<noteq> 0 then c2(''bet_'' @ str_int the_bet_id \<mapsto> game_id) else c2)
      in foldl (\<lambda>c k. c(k \<mapsto> game_id)) c3 (team_pair_keys team_names))"

text \<open>
  The earlier revision's main loop, \<open>run_main_loop\<close> with \<open>handle_restart\<close> (the
  oldest revision, old\_ps3838.py, has the same steps inline): at the threshold it sends
  the error notification, saves, pauses five seconds, sets the counter back to zero and
  goes on to the sleep between cycles.
\<close>

definition handle_restart :: "nat \<Rightarrow> action list" where
  "handle_restart n =
     [LogCritical,
      SendErrorNotification
        (''Bot reinici'' @ a_acute @ ''ndose despu'' @ e_acute @ ''s de '' @ str_nat n @
         '' errores consecutivos''),
      SaveCaches, Sleep 5]"

definition old_main_cycle :: "nat \<Rightarrow> cycle_outcome \<Rightarrow> main_state \<Rightarrow> main_state" where
  "old_main_cycle max_consecutive_errors oc s =
     (case oc of
        Completed \<Rightarrow>
          s\<lparr>consecutive_errors := 0, actions := actions s @ [SaveCaches, Sleep 60]\<rparr>
      | Interrupted \<Rightarrow>
          s\<lparr>status := Exited 0, actions := actions s @ [SaveCaches, SysExit 0]\<rparr>
      | Raised \<Rightarrow>
          (let n = consecutive_errors s + 1
           in if n \<ge> max_consecutive_errors then
                s\<lparr>consecutive_errors := 0,
                  actions := actions s @ [LogError n] @ handle_restart n @ [Sleep 60]\<rparr>
              else
                s\<lparr>consecutive_errors := n, actions := actions s @ [LogError n, Sleep 60]\<rparr>))"

fun old_run_main_loop :: "nat \<Rightarrow> cycle_outcome list \<Rightarrow> main_state \<Rightarrow> main_state" where
  "old_run_main_loop max_consecutive_errors [] s = s"
| "old_run_main_loop max_consecutive_errors (oc # ocs) s =
     (if status s = Running
      then old_run_main_loop max_consecutive_errors ocs (old_main_cycle max_consecutive_errors oc s)
      else s)"

section \<open>Predicates on the state of the main loop\<close>

definition polling :: "main_state \<Rightarrow> bool" where
  "polling s = (status s = Running \<and> consecutive_errors s < MAX_CONSECUTIVE_ERRORS)"

definition exits_at_threshold :: "main_state \<Rightarrow> bool" where
  "exits_at_threshold s =
     (status s = Exited 1 \<and>
      (\<exists>tr. actions s =
         tr @ [LogError MAX_CONSECUTIVE_ERRORS, LogCritical, SaveCaches, Sleep 5, SysExit 1]))"

definition no_escalation :: "main_state \<Rightarrow> bool" where
  "no_escalation s = (\<forall>msg. SendErrorNotification msg \<notin> set (actions s))"

section \<open>Concrete inputs\<close>

definition no_tables :: team_tables where
  "no_tables =
     \<lparr>nfl_teams = Map.empty, nba_teams = Map.empty, cfl_teams_dict = Map.empty,
      ncaa_football_teams = Map.empty, ncaa_basketball_teams = Map.empty,
      mlb_teams = Map.empty, wnba_teams = Map.empty, nhl_teams = Map.empty\<rparr>"

definition lakers_tables :: team_tables where
  "lakers_tables =
     no_tables\<lparr>nba_teams := [''lakers'' \<mapsto> ''Los Angeles Lakers''],
               nhl_teams := [''montr'' @ e_acute @ ''al canadiens'' \<mapsto> ''Montreal Canadiens'']\<rparr>"










definition empty_world :: world where
  "empty_world =
     \<lparr>game_ids_cache = Map.empty, last_values_cache = Map.empty, processed_bets = {},
      telegram_sent = [], http_requests = []\<rparr>"

definition nba_bet :: bet_info where
  "nba_bet =
     \<lparr>bet_id = 1, sport = ''Basketball'', league = ''NBA'', original_league = ''NBA'',
      visitor = ''warriors'', home = ''lakers'', bet_type = ''spread'',
      the_bet = ''lakers -4.5'', line = ''-4.5'', bet_period = []\<rparr>"

definition lakers_warriors_event :: fixture_event where
  "lakers_warriors_event =
     \<lparr>fe_id = 501, fe_home = ''Los Angeles Lakers'', fe_away = ''Golden State Warriors'',
      fe_rotNum = 101\<rparr>"

definition nba_fixtures :: "fixture_league list" where
  "nba_fixtures = [\<lparr>lg_name = ''NBA'', lg_id = 487, lg_events = [lakers_warriors_event]\<rparr>]"

definition ncaa_bet :: bet_info where
  "ncaa_bet =
     \<lparr>bet_id = 2, sport = ''Basketball'', league = ''NCAA'', original_league = ''NCAAB'',
      visitor = ''duke'', home = ''north carolina'', bet_type = ''spread'',
      the_bet = ''duke -3'', line = ''-3'', bet_period = []\<rparr>"

definition womens_event :: fixture_event where
  "womens_event =
     \<lparr>fe_id = 700, fe_home = ''North Carolina'', fe_away = ''Duke'', fe_rotNum = 306\<rparr>"

definition womens_fixtures :: "fixture_league list" where
  "womens_fixtures = [\<lparr>lg_name = ''NCAA Women'', lg_id = 578, lg_events = [womens_event]\<rparr>]"

text \<open>
  An environment in which the look-up files know Basketball (sport 4) with the leagues
  NBA and NCAA, the fixtures endpoint answers 200 with the given leagues and the settled
  endpoint answers with the given payload, whatever went before.
\<close>

definition env_of :: "fixture_league list \<Rightarrow> settled_data \<Rightarrow> env" where
  "env_of fixtures settled =
     \<lparr>sports_file = Some [(''Basketball'', 4)],
      league_files = (\<lambda>f. if f = ''data/basketball.json''
                           then Some [(''NBA'', 487), (''NCAA'', 493)] else None),
      fixtures_reply_at = (\<lambda>n. FixturesResponse 200 (JsonBody fixtures)),
      settled_reply_at = (\<lambda>n. SettledBody settled)\<rparr>"

definition final_period :: period where
  "final_period = \<lparr>number = 0, team1Score = 110, team2Score = 115, settledAt = ''2025-03-01''\<rparr>"

definition settled_with_score :: settled_data where
  "settled_with_score =
     \<lparr>sd_last = Some 77, sd_leagues = [[\<lparr>se_id = 501, se_periods = [final_period]\<rparr>]]\<rparr>"

definition settled_empty_periods :: settled_data where
  "settled_empty_periods =
     \<lparr>sd_last = Some 77, sd_leagues = [[\<lparr>se_id = 501, se_periods = []\<rparr>]]\<rparr>"

definition settled_nothing :: settled_data where
  "settled_nothing = \<lparr>sd_last = Some 77, sd_leagues = [[]]\<rparr>"

definition settled_older_cursor :: settled_data where
  "settled_older_cursor = \<lparr>sd_last = Some 50, sd_leagues = [[]]\<rparr>"

definition world_with_cursor :: world where
  "world_with_cursor = empty_world\<lparr>last_values_cache := [''4'' \<mapsto> 100]\<rparr>"

definition resolved_world :: world where
  "resolved_world =
     process_bet no_tables (env_of nba_fixtures settled_with_score) nba_bet empty_world"

definition nba_bet_again :: bet_info where
  "nba_bet_again = nba_bet\<lparr>bet_type := ''total'', the_bet := ''over 220'', line := ''220''\<rparr>"

definition world_with_cached_id :: world where
  "world_with_cached_id = empty_world\<lparr>game_ids_cache := [''bet_1'' \<mapsto> 501]\<rparr>"

section \<open>What a resolution leaves untouched\<close>


lemma search_in_settled_sink:
  "telegram_sent (snd (search_in_settled E sport_id league_ids gid w)) = telegram_sent w \<and>
   processed_bets (snd (search_in_settled E sport_id league_ids gid w)) = processed_bets w"
  by (simp add: search_in_settled_def Let_def split: settled_reply.splits option.splits)

lemma get_fixtures_sink:
  "telegram_sent (snd (get_fixtures E sport_id league_ids w)) = telegram_sent w \<and>
   processed_bets (snd (get_fixtures E sport_id league_ids w)) = processed_bets w"
  by (simp add: get_fixtures_def Let_def split: fixtures_reply.splits fixtures_body.splits)

lemma get_settled_fixtures_sink:
  "telegram_sent (get_settled_fixtures sport_id league_ids w) = telegram_sent w \<and>
   processed_bets (get_settled_fixtures sport_id league_ids w) = processed_bets w"
  by (simp add: get_settled_fixtures_def)

lemma settle_cached_sink:
  "telegram_sent (snd (settle_cached E sport_id league_ids fixtures_data gids w)) = telegram_sent w \<and>
   processed_bets (snd (settle_cached E sport_id league_ids fixtures_data gids w)) = processed_bets w"
proof (induction gids arbitrary: w)
  case Nil
  show ?case by simp
next
  case (Cons gid gids)
  obtain sr w1 where r: "search_in_settled E sport_id league_ids gid w = (sr, w1)"
    by (cases "search_in_settled E sport_id league_ids gid w")
  have w1: "telegram_sent w1 = telegram_sent w \<and> processed_bets w1 = processed_bets w"
    using search_in_settled_sink [of E sport_id league_ids gid w] r by simp
  show ?case
  proof (cases sr)
    case (SR_Error e)
    then show ?thesis
      using r w1 Cons.IH [of "get_settled_fixtures sport_id league_ids w1"]
        get_settled_fixtures_sink [of sport_id league_ids w1]
      by simp
  next
    case (SR_Event ev)
    then show ?thesis using r w1 by simp
  next
    case (SR_Data d)
    then show ?thesis using r w1 by simp
  qed
qed

lemma search_fixtures_sink:
  "telegram_sent (snd (search_fixtures E sport_id league_ids fixtures_data team_names key w))
     = telegram_sent w \<and>
   processed_bets (snd (search_fixtures E sport_id league_ids fixtures_data team_names key w))
     = processed_bets w"
proof (cases "find (team_match team_names) (concat (map lg_events fixtures_data))")
  case None
  then show ?thesis by (simp add: search_fixtures_def)
next
  case (Some ev)
  define w1 where "w1 = w\<lparr>game_ids_cache :=
     store_game_id (game_ids_cache w) (lower (fe_home ev)) (lower (fe_away ev)) key (fe_id ev)\<rparr>"
  obtain sr w2 where r: "search_in_settled E sport_id league_ids (fe_id ev) w1 = (sr, w2)"
    by (cases "search_in_settled E sport_id league_ids (fe_id ev) w1")
  have "telegram_sent w2 = telegram_sent w1 \<and> processed_bets w2 = processed_bets w1"
    using search_in_settled_sink [of E sport_id league_ids "fe_id ev" w1] r by simp
  then show ?thesis
    using Some r by (simp add: search_fixtures_def Let_def w1_def)
qed

lemma get_game_data_sink:
  "telegram_sent (snd (get_game_data T E bet w)) = telegram_sent w \<and>
   processed_bets (snd (get_game_data T E bet w)) = processed_bets w"
proof (cases "candidate_team_names T bet = []")
  case True
  then show ?thesis by (simp add: get_game_data_def)
next
  case False
  define sid where "sid = get_sport_id E (sport bet)"
  define lids where "lids = league_ids_param E bet"
  define names where "names = candidate_team_names T bet"
  define gids where "gids = cached_game_ids (game_ids_cache w) (bet_cache_key bet) names"
  obtain fx w1 where f: "get_fixtures E sid lids w = (fx, w1)"
    by (cases "get_fixtures E sid lids w")
  have w1: "telegram_sent w1 = telegram_sent w \<and> processed_bets w1 = processed_bets w"
    using get_fixtures_sink [of E sid lids w] f by simp
  obtain r w2 where s: "settle_cached E sid lids (fixtures_or_none fx) gids w1 = (r, w2)"
    by (cases "settle_cached E sid lids (fixtures_or_none fx) gids w1")
  have w2: "telegram_sent w2 = telegram_sent w \<and> processed_bets w2 = processed_bets w"
    using settle_cached_sink [of E sid lids "fixtures_or_none fx" gids w1] s w1 by simp
  have g: "get_game_data T E bet w =
             (case r of Some enriched \<Rightarrow> (enriched, w2)
              | None \<Rightarrow> search_fixtures E sid lids (fixtures_or_none fx) names (bet_cache_key bet) w2)"
    using False f s
    by (simp add: get_game_data_def Let_def sid_def lids_def names_def gids_def
          split: option.splits)
  show ?thesis
    using w2 search_fixtures_sink [of E sid lids "fixtures_or_none fx" names "bet_cache_key bet" w2]
    by (simp add: g split: option.splits)
qed

section \<open>The table a label selects\<close>

lemma get_team_dictionary_selects:
  "get_team_dictionary S T league_name =
     (let label = str_strip S (str_lower S league_name)
      in if label = ''nfl'' then nfl_teams T
         else if label = ''nba'' then nba_teams T
         else if label = ''cfl'' then cfl_teams_dict T
         else if label = ''ncaaf'' then ncaa_football_teams T
         else if label \<in> set [''ncaab'', ''ncaam''] then ncaa_basketball_teams T
         else if label = ''mlb'' then mlb_teams T
         else if label = ''wnba'' then wnba_teams T
         else if label = ''nhl'' then nhl_teams T
         else Map.empty)"
  by (simp add: get_team_dictionary_def Let_def)

section \<open>The guard of processed bets\<close>

text \<open>
  A bet whose key is in the guard is skipped, and no call of \<open>process_bet\<close>, for
  whatever bet, takes a key out of the guard.
\<close>

lemma process_bet_guarded:
  "processed_key bet \<in> processed_bets w \<Longrightarrow> process_bet T E bet w = w"
  by (simp add: process_bet_def Let_def)

lemma process_bet_guard_mono:
  "processed_bets w \<subseteq> processed_bets (process_bet T E bet w)"
proof (cases "processed_key bet \<in> processed_bets w")
  case True
  then show ?thesis by (simp add: process_bet_guarded)
next
  case False
  obtain result w1 where g: "get_game_data T E bet w = (result, w1)"
    by (cases "get_game_data T E bet w")
  have w1: "processed_bets w1 = processed_bets w"
    using get_game_data_sink [of T E bet w] g by simp
  show ?thesis
    using False g w1
    by (auto simp: process_bet_def Let_def send_telegram_message_def split: option.splits)
qed

lemma process_bets_guard_mono:
  "processed_bets w \<subseteq> processed_bets (process_bets T calls w)"
proof (induction calls arbitrary: w)
  case Nil
  show ?case by simp
next
  case (Cons call calls)
  have "processed_bets w \<subseteq> processed_bets (process_bet T (fst call) (snd call) w)"
    by (rule process_bet_guard_mono)
  also have "\<dots> \<subseteq> processed_bets (process_bets T calls (process_bet T (fst call) (snd call) w))"
    by (rule Cons.IH)
  finally show ?case by simp
qed

lemma process_bets_guarded:
  "list_all (\<lambda>call. processed_key (snd call) \<in> processed_bets w) calls \<Longrightarrow>
     process_bets T calls w = w"
  by (induction calls) (simp_all add: process_bet_guarded)

lemma processed_key_fields:
  "bet_id bet2 = bet_id bet \<Longrightarrow> visitor bet2 = visitor bet \<Longrightarrow> home bet2 = home bet \<Longrightarrow>
     processed_key bet2 = processed_key bet"
  by (simp add: processed_key_def)

section \<open>The cache keys\<close>




section \<open>The earlier revision's league test and cache keys\<close>

text \<open>
  The earlier revision's league test turns down, for a bet of an NCAA league, every
  provider league whose upper-cased name contains WNCAA or WOMEN.
\<close>

lemma is_matching_league_excludes_women:
  assumes "upper search_league \<in> set NCAA_LEAGUES"
    and "str_in ''WNCAA'' (upper (lg_name league_info)) \<or>
         str_in ''WOMEN'' (upper (lg_name league_info))"
  shows "\<not> is_matching_league league_info search_league"
  using assms by (simp add: is_matching_league_def Let_def)

text \<open>
  The earlier revision recorded a discovered id under the pairs of the searched names
  too: for the names warriors and lakers, under \<open>warriors_lakers\<close> and
  \<open>lakers_warriors\<close>.
\<close>

lemma save_game_id_mappings_scenario:
  "save_game_id_mappings Map.empty 501 ''los angeles lakers'' ''golden state warriors''
     [''warriors'', ''lakers''] 1 ''warriors_lakers'' = Some 501 \<and>
   save_game_id_mappings Map.empty 501 ''los angeles lakers'' ''golden state warriors''
     [''warriors'', ''lakers''] 1 ''lakers_warriors'' = Some 501 \<and>
   save_game_id_mappings Map.empty 501 ''los angeles lakers'' ''golden state warriors''
     [''warriors'', ''lakers''] 1 ''bet_1'' = Some 501"
  by code_simp

text \<open>
  The earlier revision's loop, on five failing cycles: it notifies the sink, saves,
  pauses five seconds, starts counting again from zero and is still running.
\<close>

lemma old_loop_notifies_and_resumes:
  "status (old_run_main_loop 5 (replicate 5 Raised) initial_main_state) = Running \<and>
   consecutive_errors (old_run_main_loop 5 (replicate 5 Raised) initial_main_state) = 0 \<and>
   actions (old_run_main_loop 5 (replicate 5 Raised) initial_main_state) =
     [LogError 1, Sleep 60, LogError 2, Sleep 60, LogError 3, Sleep 60, LogError 4, Sleep 60,
      LogError 5, LogCritical,
      SendErrorNotification
        (''Bot reinici'' @ a_acute @ ''ndose despu'' @ e_acute @ ''s de 5 errores consecutivos''),
      SaveCaches, Sleep 5, Sleep 60]"
  by code_simp

section \<open>The main loop's invariants\<close>

lemma run_main_loop_exited: "status s \<noteq> Running \<Longrightarrow> run_main_loop ocs s = s"
  by (cases ocs) simp_all

lemma run_main_loop_append:
  "run_main_loop (xs @ ys) s = run_main_loop ys (run_main_loop xs s)"
proof (induction xs arbitrary: s)
  case Nil
  show ?case by simp
next
  case (Cons x xs)
  then show ?case by (simp add: run_main_loop_exited)
qed

lemma main_cycle_no_escalation: "no_escalation s \<Longrightarrow> no_escalation (main_cycle oc s)"
  by (cases oc) (auto simp: no_escalation_def main_cycle_def Let_def)

lemma run_main_loop_no_escalation: "no_escalation s \<Longrightarrow> no_escalation (run_main_loop ocs s)"
  by (induction ocs arbitrary: s) (simp_all add: main_cycle_no_escalation)

lemma main_cycle_polling:
  "polling s \<Longrightarrow> oc \<noteq> Interrupted \<Longrightarrow>
     polling (main_cycle oc s) \<or> exits_at_threshold (main_cycle oc s)"
  by (cases oc)
    (auto simp: polling_def exits_at_threshold_def main_cycle_def Let_def
       MAX_CONSECUTIVE_ERRORS_def)

lemma run_main_loop_polling:
  "polling s \<Longrightarrow> list_all (\<lambda>oc. oc \<noteq> Interrupted) ocs \<Longrightarrow>
     polling (run_main_loop ocs s) \<or> exits_at_threshold (run_main_loop ocs s)"
proof (induction ocs arbitrary: s)
  case Nil
  then show ?case by simp
next
  case (Cons oc ocs)
  then have r: "status s = Running" and i: "oc \<noteq> Interrupted"
    and rest: "list_all (\<lambda>oc. oc \<noteq> Interrupted) ocs"
    by (simp_all add: polling_def)
  from main_cycle_polling [OF Cons.prems(1) i] show ?case
  proof
    assume "polling (main_cycle oc s)"
    from Cons.IH [OF this rest] show ?thesis using r by simp
  next
    assume e: "exits_at_threshold (main_cycle oc s)"
    then have "run_main_loop ocs (main_cycle oc s) = main_cycle oc s"
      by (simp add: run_main_loop_exited exits_at_threshold_def)
    then show ?thesis using e r by simp
  qed
qed

lemma failures_reach_threshold:
  "polling s \<Longrightarrow> MAX_CONSECUTIVE_ERRORS \<le> consecutive_errors s + k \<Longrightarrow>
     exits_at_threshold (run_main_loop (replicate k Raised @ post) s)"
proof (induction k arbitrary: s)
  case 0
  then show ?case by (simp add: polling_def)
next
  case (Suc k)
  have r: "status s = Running" using Suc.prems(1) by (simp add: polling_def)
  show ?case
  proof (cases "MAX_CONSECUTIVE_ERRORS \<le> consecutive_errors s + 1")
    case True
    then have e: "exits_at_threshold (main_cycle Raised s)"
      using Suc.prems(1)
      by (auto simp: exits_at_threshold_def main_cycle_def Let_def polling_def)
    then have "run_main_loop (replicate k Raised @ post) (main_cycle Raised s)
                 = main_cycle Raised s"
      by (simp add: run_main_loop_exited exits_at_threshold_def)
    then show ?thesis using e r by simp
  next
    case False
    then have p: "polling (main_cycle Raised s)"
      and c: "consecutive_errors (main_cycle Raised s) = consecutive_errors s + 1"
      using r by (simp_all add: polling_def main_cycle_def Let_def)
    have "MAX_CONSECUTIVE_ERRORS \<le> consecutive_errors (main_cycle Raised s) + k"
      using Suc.prems(2) c by simp
    from Suc.IH [OF p this] show ?thesis using r by simp
  qed
qed

text \<open>The loop itself never calls the sink, whatever the cycles do.\<close>

lemma main_loop_never_escalates:
  "SendErrorNotification msg \<notin> set (actions (run_main_loop ocs initial_main_state))"
proof -
  have "no_escalation initial_main_state"
    by (simp add: no_escalation_def initial_main_state_def)
  then have "no_escalation (run_main_loop ocs initial_main_state)"
    by (rule run_main_loop_no_escalation)
  then show ?thesis by (simp add: no_escalation_def)
qed

text \<open>Below the threshold a failing cycle is logged, the loop sleeps and goes on.\<close>

lemma main_cycle_below_threshold:
  "consecutive_errors s + 1 < MAX_CONSECUTIVE_ERRORS \<Longrightarrow>
     main_cycle Raised s =
       s\<lparr>consecutive_errors := consecutive_errors s + 1,
         actions := actions s @ [LogError (consecutive_errors s + 1), Sleep MAIN_LOOP_SLEEP]\<rparr>"
  by (simp add: main_cycle_def Let_def)

section \<open>The claims\<close>

subsection \<open>C1: a settled event without periods\<close>

text \<open>
  Claim C1 says that a bet whose event is in the settled reply with an empty period list
  is never resolved: no notification, no entry in the guard of processed bets.
  \<open>search_in_settled\<close> returns the event it finds without looking at its periods, so the
  bet is resolved on both paths, by a fixture match and by a cached id: the sink
  receives a payload whose period list is empty and the bet's key enters the guard.
\<close>

theorem empty_periods_resolved:
  "telegram_sent
     (process_bet T (env_of nba_fixtures settled_empty_periods) nba_bet empty_world) =
     [\<lparr>n_result =
         \<lparr>gr_error = None, gr_id = Some 501, gr_periods = Some [],
          gr_actual_home = Some ''Los Angeles Lakers'',
          gr_actual_away = Some ''Golden State Warriors'', gr_data = None\<rparr>,
       n_bet_info =
         Some \<lparr>bs_id = 1, bs_sport = ''Basketball'', bs_league = ''NBA'',
               bs_bet_type = ''spread'', bs_the_bet = ''lakers -4.5'', bs_line = ''-4.5'',
               bs_period = [], bs_visitor = ''Golden State Warriors'',
               bs_home = ''Los Angeles Lakers''\<rparr>\<rparr>] \<and>
   processed_key nba_bet \<in>
     processed_bets
       (process_bet T (env_of nba_fixtures settled_empty_periods) nba_bet empty_world) \<and>
   map (\<lambda>n. gr_periods (n_result n))
     (telegram_sent
        (process_bet T (env_of nba_fixtures settled_empty_periods) nba_bet
           world_with_cached_id)) = [Some []] \<and>
   processed_key nba_bet \<in>
     processed_bets
       (process_bet T (env_of nba_fixtures settled_empty_periods) nba_bet
          world_with_cached_id)"
  by code_simp

subsection \<open>C2: a bet that is still pending\<close>

text \<open>
  Claim C2 says that a bet whose event is not in the settled reply yet, or for which no
  fixture matches, is logged only. \<open>process_bet\<close> keeps quiet when the lower-cased error
  contains \<open>not found in settled yet\<close>; the service's messages are Spanish and never
  contain it, so both errors are handed to the sink.
\<close>

theorem pending_bet_notified:
  "map (\<lambda>n. gr_error (n_result n))
     (telegram_sent
        (process_bet T (env_of nba_fixtures settled_nothing) nba_bet empty_world)) =
     [Some ''Partido con ID 501 no encontrado en settled.''] \<and>
   map (\<lambda>n. gr_error (n_result n))
     (telegram_sent (process_bet T (env_of [] settled_nothing) nba_bet empty_world)) =
     [Some (''Partido no encontrado en fixtures ni en la cach'' @ e_acute @ ''.'')]"
  by code_simp

subsection \<open>C3: women's leagues and NCAA bets\<close>

text \<open>
  Claim C3 says that the fixture search of a bet of an NCAA league never matches an event
  of a provider league whose name contains WNCAA or WOMEN. The service's fixture search
  compares team names only, in every league of the reply: for an NCAA bet on duke it
  takes the event of the league NCAA Women, records its id and asks for its settlement.
\<close>

theorem womens_league_matched:
  "str_in ''WOMEN'' (upper (lg_name (hd womens_fixtures))) \<and>
   str_in ''NCAA'' (upper (lg_name (hd womens_fixtures))) \<and>
   upper (league ncaa_bet) \<in> set NCAA_LEAGUES \<and>
   find (team_match (candidate_team_names T ncaa_bet))
     (concat (map lg_events womens_fixtures)) = Some womens_event \<and>
   gr_actual_home
     (fst (get_game_data T (env_of womens_fixtures settled_nothing) ncaa_bet
             empty_world)) = Some ''North Carolina'' \<and>
   game_ids_cache
     (snd (get_game_data T (env_of womens_fixtures settled_nothing) ncaa_bet
             empty_world)) ''bet_2'' = Some 700"
  by code_simp

subsection \<open>C4: the settled cursor\<close>

text \<open>
  Claim C4 says that the cursor stored for a sport only ever advances. The code compares
  nothing: a reply that carries a \<open>last\<close> field overwrites the cursor of the sport with
  it, whatever was stored; a reply without one, and a failed request, leave the store as
  it was. No other sport's cursor changes and no cursor is removed. So the stored value
  goes down when the provider's does, here from 100 to 50.
\<close>

theorem settled_cursor_counterexample:
  "last_values_cache world_with_cursor (str_int 4) = Some 100 \<and>
   last_values_cache
     (snd (search_in_settled (env_of nba_fixtures settled_older_cursor) 4 ''487'' 501
             world_with_cursor)) (str_int 4) = Some 50"
  by code_simp

text \<open>
  C4 as the code has it: after a settled call the cursor store is the old one, with the
  reply's \<open>last\<close> written under the sport's key when the reply has one.
\<close>

theorem settled_cursor_overwritten:
  "last_values_cache (snd (search_in_settled E sport_id league_ids game_id w)) =
     (case settled_reply_at E (length (http_requests w)) of
        SettledFailed e \<Rightarrow> last_values_cache w
      | SettledBody data \<Rightarrow>
          (case sd_last data of
             None \<Rightarrow> last_values_cache w
           | Some v \<Rightarrow> (last_values_cache w)(str_int sport_id \<mapsto> v)))"
  by (simp add: search_in_settled_def Let_def split: settled_reply.splits option.splits)

subsection \<open>C5: both orders of a team pair\<close>



subsection \<open>C6: normalising a team name\<close>




subsection \<open>C7: the scenario of the lakers bet\<close>

text \<open>
  Claim C7: for the bet 1 on warriors at lakers, an empty cache and a fixtures reply with
  the event 501 of the Los Angeles Lakers and the Golden State Warriors, the search
  finds 501 and the cache then maps \<open>warriors_lakers\<close>, \<open>lakers_warriors\<close> and \<open>bet_1\<close>
  to 501. The service finds 501 and records it under \<open>bet_1\<close> and under the two orders
  of the provider's names; the keys of the bet's own names stay absent.
\<close>

theorem scenario_cache_keys:
  "game_ids_cache
     (snd (get_game_data T (env_of nba_fixtures settled_nothing) nba_bet empty_world))
     ''bet_1'' = Some 501 \<and>
   game_ids_cache
     (snd (get_game_data T (env_of nba_fixtures settled_nothing) nba_bet empty_world))
     ''goldenstatewarriors_losangeleslakers'' = Some 501 \<and>
   game_ids_cache
     (snd (get_game_data T (env_of nba_fixtures settled_nothing) nba_bet empty_world))
     ''losangeleslakers_goldenstatewarriors'' = Some 501 \<and>
   game_ids_cache
     (snd (get_game_data T (env_of nba_fixtures settled_nothing) nba_bet empty_world))
     ''warriors_lakers'' = None \<and>
   game_ids_cache
     (snd (get_game_data T (env_of nba_fixtures settled_nothing) nba_bet empty_world))
     ''lakers_warriors'' = None"
  by code_simp

subsection \<open>C8: consecutive failing cycles\<close>

text \<open>
  Claim C8 says that at the threshold of consecutive failing cycles the engine notifies
  the sink, pauses and resumes polling, and never exits on a caught error. The loop of
  \<open>main\<close> counts as the claim says, a completed cycle setting the counter back to zero,
  but at the fifth failure in a row it only logs, saves, pauses and exits with status 1:
  no notification is sent and the cycles that would follow do not run.
\<close>

theorem five_failures_exit:
  "status (run_main_loop (replicate MAX_CONSECUTIVE_ERRORS Raised) initial_main_state)
     = Exited 1 \<and>
   actions (run_main_loop (replicate MAX_CONSECUTIVE_ERRORS Raised) initial_main_state) =
     [LogError 1, Sleep 60, LogError 2, Sleep 60, LogError 3, Sleep 60, LogError 4, Sleep 60,
      LogError 5, LogCritical, SaveCaches, Sleep 5, SysExit 1] \<and>
   run_main_loop (replicate MAX_CONSECUTIVE_ERRORS Raised @ [Completed, Raised]) initial_main_state
     = run_main_loop (replicate MAX_CONSECUTIVE_ERRORS Raised) initial_main_state \<and>
   status (run_main_loop (replicate 4 Raised @ [Completed] @ replicate 4 Raised)
             initial_main_state) = Running \<and>
   consecutive_errors (run_main_loop (replicate 4 Raised @ [Completed]) initial_main_state) = 0"
  by code_simp

text \<open>
  The same holds after any cycles without an interrupt: once five cycles in a row fail,
  the process has exited with status 1.
\<close>

lemma main_loop_exits_at_threshold:
  assumes "list_all (\<lambda>oc. oc \<noteq> Interrupted) pre"
  shows "status (run_main_loop (pre @ replicate MAX_CONSECUTIVE_ERRORS Raised @ post)
                   initial_main_state) = Exited 1 \<and>
         (\<exists>tr. actions (run_main_loop (pre @ replicate MAX_CONSECUTIVE_ERRORS Raised @ post)
                          initial_main_state) =
                  tr @ [LogError MAX_CONSECUTIVE_ERRORS, LogCritical, SaveCaches, Sleep 5,
                        SysExit 1]) \<and>
         (if consecutive_errors s + 1 < MAX_CONSECUTIVE_ERRORS
          then status (main_cycle Raised s) = status s
          else status (main_cycle Raised s) = Exited 1)"
proof -
  have p0: "polling initial_main_state"
    by (simp add: polling_def initial_main_state_def MAX_CONSECUTIVE_ERRORS_def)
  let ?s = "run_main_loop pre initial_main_state"
  let ?all = "pre @ replicate MAX_CONSECUTIVE_ERRORS Raised @ post"
  have "exits_at_threshold (run_main_loop (replicate MAX_CONSECUTIVE_ERRORS Raised @ post) ?s)"
    using run_main_loop_polling [OF p0 assms]
  proof
    assume "polling ?s"
    then show ?thesis by (rule failures_reach_threshold) simp
  next
    assume e: "exits_at_threshold ?s"
    then show ?thesis by (simp add: run_main_loop_exited exits_at_threshold_def)
  qed
  then have e: "exits_at_threshold (run_main_loop ?all initial_main_state)"
    by (simp only: run_main_loop_append)
  have b: "if consecutive_errors s + 1 < MAX_CONSECUTIVE_ERRORS
           then status (main_cycle Raised s) = status s
           else status (main_cycle Raised s) = Exited 1"
    by (simp add: main_cycle_def Let_def)
  from e b show ?thesis
    unfolding exits_at_threshold_def by blast
qed

subsection \<open>C9: one notification for a resolved bet\<close>

text \<open>
  Claim C9: when a bet that is not in the guard is resolved (the resolution's result has
  no error), exactly one payload is handed to the sink and the guard gains exactly the
  bet's composite key, its identifier, visitor and home joined by underscores. From then
  on, whatever bets are processed in between and whatever the tables and the provider
  say, processing a bet with the same identifier, visitor and home changes nothing, and
  a run of such bets leaves the world, the sink included, as it was.
\<close>

theorem process_bet_notifies_once:
  assumes "processed_key bet \<notin> processed_bets w"
    and "gr_error (fst (get_game_data T E bet w)) = None"
  shows "telegram_sent (process_bet T E bet w) =
           telegram_sent w @ [add_bet_info_to_result (fst (get_game_data T E bet w)) bet] \<and>
         processed_bets (process_bet T E bet w) =
           insert (str_int (bet_id bet) @ ''_'' @ visitor bet @ ''_'' @ home bet)
             (processed_bets w) \<and>
         (bet_id bet2 = bet_id bet \<and> visitor bet2 = visitor bet \<and> home bet2 = home bet \<longrightarrow>
            process_bet T2 E2 bet2 (process_bets T1 calls (process_bet T E bet w)) =
              process_bets T1 calls (process_bet T E bet w)) \<and>
         (list_all (\<lambda>call. bet_id (snd call) = bet_id bet \<and> visitor (snd call) = visitor bet \<and>
                            home (snd call) = home bet) again \<longrightarrow>
            process_bets T3 again (process_bet T E bet w) = process_bet T E bet w)"
proof -
  obtain result w1 where g: "get_game_data T E bet w = (result, w1)"
    by (cases "get_game_data T E bet w")
  have w1: "telegram_sent w1 = telegram_sent w \<and> processed_bets w1 = processed_bets w"
    using get_game_data_sink [of T E bet w] g by simp
  have p: "process_bet T E bet w =
             (send_telegram_message (add_bet_info_to_result result bet) w1)
               \<lparr>processed_bets :=
                  insert (processed_key bet)
                    (processed_bets
                       (send_telegram_message (add_bet_info_to_result result bet) w1))\<rparr>"
    using assms g by (simp add: process_bet_def Let_def)
  have sent: "telegram_sent (process_bet T E bet w) =
                telegram_sent w @ [add_bet_info_to_result (fst (get_game_data T E bet w)) bet]"
    using g w1 by (simp add: p send_telegram_message_def)
  have guard: "processed_bets (process_bet T E bet w) =
                 insert (str_int (bet_id bet) @ ''_'' @ visitor bet @ ''_'' @ home bet)
                   (processed_bets w)"
    using w1 by (simp add: p send_telegram_message_def processed_key_def)
  have k: "processed_key bet \<in> processed_bets (process_bet T E bet w)"
    by (simp add: p)
  have later: "process_bet T2 E2 bet2 (process_bets T1 calls (process_bet T E bet w)) =
                 process_bets T1 calls (process_bet T E bet w)"
    if "bet_id bet2 = bet_id bet \<and> visitor bet2 = visitor bet \<and> home bet2 = home bet"
  proof -
    have "processed_key bet2 = processed_key bet"
      using that by (simp add: processed_key_def)
    then have "processed_key bet2 \<in> processed_bets (process_bets T1 calls (process_bet T E bet w))"
      using k process_bets_guard_mono [of "process_bet T E bet w" T1 calls] by auto
    then show ?thesis by (rule process_bet_guarded)
  qed
  have again: "process_bets T3 again (process_bet T E bet w) = process_bet T E bet w"
    if a: "list_all (\<lambda>call. bet_id (snd call) = bet_id bet \<and> visitor (snd call) = visitor bet \<and>
                            home (snd call) = home bet) again"
  proof -
    have "list_all (\<lambda>call. processed_key (snd call) \<in> processed_bets (process_bet T E bet w)) again"
      using a k by (auto simp: list_all_iff processed_key_def)
    then show ?thesis by (rule process_bets_guarded)
  qed
  from sent guard later again show ?thesis by blast
qed

theorem process_bet_notifies_once_witness:
  "processed_bets resolved_world = insert ''1_warriors_lakers'' {} \<and>
   length (telegram_sent resolved_world) = 1 \<and>
   process_bet lakers_tables (env_of nba_fixtures settled_nothing) nba_bet_again
     (process_bets no_tables [(env_of womens_fixtures settled_nothing, ncaa_bet)] resolved_world)
     = process_bets no_tables [(env_of womens_fixtures settled_nothing, ncaa_bet)] resolved_world \<and>
   process_bets no_tables
     [(env_of nba_fixtures settled_nothing, nba_bet),
      (env_of nba_fixtures settled_with_score, nba_bet_again)] resolved_world = resolved_world"
proof -
  have a: "processed_key nba_bet \<notin> processed_bets empty_world"
    by (simp add: empty_world_def)
  have b: "gr_error (fst (get_game_data no_tables (env_of nba_fixtures settled_with_score)
             nba_bet empty_world)) = None"
    by code_simp
  have key: "str_int (bet_id nba_bet) @ ''_'' @ visitor nba_bet @ ''_'' @ home nba_bet
               = ''1_warriors_lakers''"
    by code_simp
  have same: "bet_id nba_bet_again = bet_id nba_bet \<and> visitor nba_bet_again = visitor nba_bet \<and>
              home nba_bet_again = home nba_bet"
    by (simp add: nba_bet_again_def)
  have again: "list_all (\<lambda>call. bet_id (snd call) = bet_id nba_bet \<and>
                   visitor (snd call) = visitor nba_bet \<and> home (snd call) = home nba_bet)
                 [(env_of nba_fixtures settled_nothing, nba_bet),
                  (env_of nba_fixtures settled_with_score, nba_bet_again)]"
    by (simp add: nba_bet_again_def)
  have e: "telegram_sent empty_world = [] \<and> processed_bets empty_world = {}"
    by (simp add: empty_world_def)
  note th = process_bet_notifies_once [OF a b,
      of nba_bet_again lakers_tables "env_of nba_fixtures settled_nothing" no_tables
         "[(env_of womens_fixtures settled_nothing, ncaa_bet)]"
         "[(env_of nba_fixtures settled_nothing, nba_bet),
           (env_of nba_fixtures settled_with_score, nba_bet_again)]" no_tables]
  from th have sent: "telegram_sent resolved_world =
      telegram_sent empty_world @
      [add_bet_info_to_result
         (fst (get_game_data no_tables (env_of nba_fixtures settled_with_score) nba_bet
                 empty_world)) nba_bet]"
    unfolding resolved_world_def by (rule conjunct1)
  then have c1: "length (telegram_sent resolved_world) = 1"
    by (simp add: e)
  from th have "processed_bets resolved_world =
      insert (str_int (bet_id nba_bet) @ ''_'' @ visitor nba_bet @ ''_'' @ home nba_bet)
        (processed_bets empty_world)"
    unfolding resolved_world_def by blast
  then have c2: "processed_bets resolved_world = insert ''1_warriors_lakers'' {}"
    unfolding key by (simp add: e)
  from th same have c3: "process_bet lakers_tables (env_of nba_fixtures settled_nothing)
      nba_bet_again
      (process_bets no_tables [(env_of womens_fixtures settled_nothing, ncaa_bet)] resolved_world)
      = process_bets no_tables [(env_of womens_fixtures settled_nothing, ncaa_bet)] resolved_world"
    unfolding resolved_world_def by blast
  from th again have c4: "process_bets no_tables
      [(env_of nba_fixtures settled_nothing, nba_bet),
       (env_of nba_fixtures settled_with_score, nba_bet_again)] resolved_world = resolved_world"
    unfolding resolved_world_def by blast
  from c1 c2 c3 c4 show ?thesis by blast
qed

text \<open>A bet with another key is not held back by the guard: it is processed and notified.\<close>

lemma other_bets_still_processed:
  "length (telegram_sent
     (process_bets no_tables [(env_of womens_fixtures settled_nothing, ncaa_bet)] resolved_world)) = 2"
  by code_simp

subsection \<open>C10: the parameters of a fixtures request\<close>

text \<open>
  Claim C10: with a sport id that is zero or negative, or with an empty string of league
  ids, \<open>get_fixtures\<close> returns an error dictionary and issues no request: the world,
  its list of requests included, is the one it was given.
\<close>

theorem get_fixtures_rejects_without_request:
  "sport_id \<le> 0 \<or> league_ids = [] \<Longrightarrow>
     \<exists>msg. get_fixtures E sport_id league_ids w = (FX_Error msg, w)"
  by (auto simp: get_fixtures_def)

theorem get_fixtures_rejects_without_request_witness:
  "(\<exists>msg. get_fixtures (env_of nba_fixtures settled_nothing) 0 ''487'' empty_world
            = (FX_Error msg, empty_world)) \<and>
   (\<exists>msg. get_fixtures (env_of nba_fixtures settled_nothing) 4 [] empty_world
            = (FX_Error msg, empty_world))"
proof -
  have a: "(0::int) \<le> 0 \<or> ''487'' = []" by simp
  have b: "(4::int) \<le> 0 \<or> ([]::string) = []" by simp
  show ?thesis
    using get_fixtures_rejects_without_request [OF a]
      get_fixtures_rejects_without_request [OF b]
    by blast
qed

end
